theory Spec2Isabelle
  imports Complex_Main "HOL-Library.Word" "HOL-Library.Sublist"
begin

section \<open>Values shared by all drivers\<close>

type_synonym byte = "8 word"
type_synonym bytes = "byte list"

text \<open>
  A url of the callers is an object with a \<open>nickname\<close> attribute whose \<open>str()\<close> is the
  address. A Python \<open>str\<close> is a \<open>string\<close> here: the characters of its UTF-8 encoding.
\<close>

record URL =
  address :: string
  nickname :: string

definition str :: "URL \<Rightarrow> string" where
  "str u = address u"

text \<open>
  The attribute \<open>HttpGetResponse.text\<close> is the field \<open>page_text\<close>. It holds a \<open>str\<close> in
  three drivers and the \<open>bytes\<close> of the protobuf field in LeanAndMeanDriver; \<open>HttpGetResponse.url\<close> holds the caller's url
  object in three drivers and the \<open>str\<close> \<open>r.url\<close> in RequestsDriver.
\<close>

datatype pytext = Str string | Bytes bytes

datatype pyurl = UrlObj URL | UrlStr string

record HttpGetResponse =
  page_text :: pytext
  url :: pyurl
  status_code :: "int option"

text \<open>
  \<open>__init__(self, text, url, **kwargs)\<close>: the keyword arguments are a dictionary, and
  \<open>kwargs.get('status_code', None)\<close> is its lookup, \<open>None\<close> when the key is absent.
\<close>

definition HttpGetResponse_init ::
  "pytext \<Rightarrow> pyurl \<Rightarrow> (string \<rightharpoonup> int) \<Rightarrow> HttpGetResponse" where
  "HttpGetResponse_init t u kwargs =
     \<lparr>page_text = t, url = u, status_code = kwargs ''status_code''\<rparr>"

text \<open>
  The exceptions that leave the functions of the module. The module defines no exception
  class of its own: it raises the builtin \<open>Exception\<close> in two constructors, and the rest
  comes out of the libraries it calls.
\<close>

datatype exn =
    Exception string
  | OSError string
  | DecodeError
  | ValueError
  | WebDriverException string
  | RequestException string

text \<open>
  The records handed to \<open>logging\<close>: the level, and the format of the message with its
  arguments.
\<close>

datatype log_record =
    Warning_screenshot exn
  | Warning_scrape_failed string
  | Debug_status int URL
  | Debug_got_response int int nat

text \<open>
  \<open>Driver.__init__\<close> reads \<open>data_dir\<close> and \<open>timeout\<close> from its keyword arguments;
  \<open>DriverRepo\<close>, its only caller, passes both.
\<close>

record Driver =
  data_dir :: string
  timeout :: int

definition Driver_init :: "string \<Rightarrow> int \<Rightarrow> Driver" where
  "Driver_init d t = \<lparr>data_dir = d, timeout = t\<rparr>"

section \<open>The messages of \<open>worker.worker_pb2\<close>\<close>

text \<open>
  Modelled from the spec: the two messages of the generated module \<open>worker_pb2\<close>, which
  is not among the sources. Section 6 of the specification gives them as
  \<^verbatim>\<open>RpcRequest  { id: int64, url: string, timeout: int32 }\<close> and
  \<^verbatim>\<open>RpcResponse { id: int64, status_code: int32, data: bytes }\<close>, in a
  "field-tagged, variable-length" binary encoding: the protobuf wire format, proto3
  rules, the fields numbered 1, 2, 3 in the order the specification lists them.
\<close>

record Request =
  req_id :: int
  req_url :: string
  req_timeout :: int

record Response =
  resp_id :: int
  resp_status_code :: int
  resp_data :: bytes

text \<open>Modelled from the spec: a fresh message has every field at its default.\<close>

definition Request_new :: Request where
  "Request_new = \<lparr>req_id = 0, req_url = [], req_timeout = 0\<rparr>"

definition Response_new :: Response where
  "Response_new = \<lparr>resp_id = 0, resp_status_code = 0, resp_data = []\<rparr>"

text \<open>
  Modelled from the spec: assigning an \<open>int32\<close> field checks the range of the type and
  raises \<open>ValueError\<close> outside of it. The other two assignments of the source cannot
  raise (\<open>1337\<close> is an \<open>int64\<close>, \<open>str(url)\<close> is a \<open>str\<close>) and are record updates.
\<close>

definition set_timeout :: "Request \<Rightarrow> int \<Rightarrow> exn + Request" where
  "set_timeout r v =
     (if - (2 ^ 31) \<le> v \<and> v < 2 ^ 31 then Inr (r\<lparr>req_timeout := v\<rparr>) else Inl ValueError)"

subsection \<open>Variable-length integers\<close>

text \<open>
  Modelled from the spec: a base-128 varint, least significant group first, the top bit
  of a byte set when another byte follows.
\<close>

function encode_varint :: "nat \<Rightarrow> bytes" where
  "encode_varint n =
     (if n < 128 then [of_nat n]
      else of_nat (128 + n mod 128) # encode_varint (n div 128))"
  by pat_completeness auto
termination
  by (relation "measure id") auto

declare encode_varint.simps [simp del]

text \<open>
  Modelled from the spec: the decoder reads at most \<open>k\<close> bytes (ten for a 64-bit value)
  and fails on a varint that is cut off or longer; it returns the value and the bytes
  that follow.
\<close>

fun decode_varint :: "nat \<Rightarrow> bytes \<Rightarrow> (nat \<times> bytes) option" where
  "decode_varint k [] = None"
| "decode_varint k (b # bs) =
     (if k = 0 then None
      else if unat b < 128 then Some (unat b, bs)
      else (case decode_varint (k - 1) bs of
              None \<Rightarrow> None
            | Some (v, rest) \<Rightarrow> Some (unat b - 128 + 128 * v, rest)))"

text \<open>
  Modelled from the spec: an integer field travels in two's complement, as the varint of
  its value modulo \<open>2^64\<close>, and a string as the bytes of its UTF-8 encoding.
\<close>

definition from_int64 :: "int \<Rightarrow> nat" where
  "from_int64 i = nat (i mod 2 ^ 64)"

definition to_int64 :: "nat \<Rightarrow> int" where
  "to_int64 v =
     (let u = int v mod 2 ^ 64 in if u < 2 ^ 63 then u else u - 2 ^ 64)"

definition to_int32 :: "nat \<Rightarrow> int" where
  "to_int32 v =
     (let u = int v mod 2 ^ 32 in if u < 2 ^ 31 then u else u - 2 ^ 32)"

definition utf8_encode :: "string \<Rightarrow> bytes" where
  "utf8_encode s = map (\<lambda>c. of_nat (of_char c)) s"

definition utf8_decode :: "bytes \<Rightarrow> string" where
  "utf8_decode bs = map (\<lambda>b. char_of (unat b)) bs"

subsection \<open>Fields on the wire\<close>

datatype wire_value =
    Varint nat
  | Fixed64 bytes
  | LengthDelimited bytes
  | Fixed32 bytes

text \<open>
  Modelled from the spec: one field is a key, the varint of
  \<open>8 * field_number + wire_type\<close>, and a payload whose shape the wire type gives.
  Field number 0, the group wire types 3 and 4 (which the two messages do not use)
  and the undefined wire types 6 and 7 do not decode.
\<close>

definition read_field :: "bytes \<Rightarrow> ((nat \<times> wire_value) \<times> bytes) option" where
  "read_field bs =
     (case decode_varint 10 bs of
        None \<Rightarrow> None
      | Some (key, r) \<Rightarrow>
          (let fnum = key div 8; wt = key mod 8 in
           if fnum = 0 then None
           else if wt = 0 then
             (case decode_varint 10 r of
                None \<Rightarrow> None
              | Some (v, r') \<Rightarrow> Some ((fnum, Varint (v mod 2 ^ 64)), r'))
           else if wt = 1 then
             (if length r < 8 then None
              else Some ((fnum, Fixed64 (take 8 r)), drop 8 r))
           else if wt = 2 then
             (case decode_varint 10 r of
                None \<Rightarrow> None
              | Some (n, r') \<Rightarrow>
                  if length r' < n then None
                  else Some ((fnum, LengthDelimited (take n r')), drop n r'))
           else if wt = 5 then
             (if length r < 4 then None
              else Some ((fnum, Fixed32 (take 4 r)), drop 4 r))
           else None))"

lemma decode_varint_shorter:
  "decode_varint k bs = Some (v, r) \<Longrightarrow> length r < length bs"
proof (induction bs arbitrary: k v r)
  case Nil
  then show ?case by simp
next
  case (Cons b bs)
  show ?case
  proof (cases "k = 0 \<or> unat b < 128")
    case True
    with Cons.prems show ?thesis by (auto split: if_splits)
  next
    case False
    with Cons.prems obtain v' where "decode_varint (k - 1) bs = Some (v', r)"
      by (auto split: option.splits)
    from Cons.IH [OF this] show ?thesis by simp
  qed
qed

lemma read_field_shorter:
  assumes "read_field bs = Some (f, r)"
  shows "length r < length bs"
proof -
  from assms obtain key r0 where k: "decode_varint 10 bs = Some (key, r0)"
    by (auto simp: read_field_def split: option.splits)
  have l0: "length r0 < length bs"
    by (rule decode_varint_shorter [OF k])
  have "length r \<le> length r0"
    using assms k
    by (auto simp: read_field_def Let_def split: option.splits if_splits
        dest!: decode_varint_shorter)
  with l0 show ?thesis by simp
qed

text \<open>Modelled from the spec: a message is its fields one after another, up to the end.\<close>

function parse_fields :: "bytes \<Rightarrow> (nat \<times> wire_value) list option" where
  "parse_fields bs =
     (if bs = [] then Some []
      else (case read_field bs of
              None \<Rightarrow> None
            | Some (f, r) \<Rightarrow>
                (case parse_fields r of
                   None \<Rightarrow> None
                 | Some fs \<Rightarrow> Some (f # fs))))"
  by pat_completeness auto
termination
  by (relation "measure length") (auto dest: read_field_shorter)

declare parse_fields.simps [simp del]

subsection \<open>Serializing and parsing the two messages\<close>

text \<open>
  Modelled from the spec: \<open>SerializeToString\<close> writes the fields in the order of their
  numbers, each behind its key (written by \<open>tag\<close>), and leaves out a field that holds its default. Wire type
  0 is a varint, wire type 2 a length and that many bytes.
\<close>

definition tag :: "nat \<Rightarrow> nat \<Rightarrow> bytes" where
  "tag fnum wt = encode_varint (8 * fnum + wt)"

definition Request_SerializeToString :: "Request \<Rightarrow> bytes" where
  "Request_SerializeToString r =
     (if req_id r = 0 then []
      else tag 1 0 @ encode_varint (from_int64 (req_id r)))
     @ (if req_url r = [] then []
        else tag 2 2 @ encode_varint (length (utf8_encode (req_url r)))
             @ utf8_encode (req_url r))
     @ (if req_timeout r = 0 then []
        else tag 3 0 @ encode_varint (from_int64 (req_timeout r)))"

definition Response_SerializeToString :: "Response \<Rightarrow> bytes" where
  "Response_SerializeToString r =
     (if resp_id r = 0 then []
      else tag 1 0 @ encode_varint (from_int64 (resp_id r)))
     @ (if resp_status_code r = 0 then []
        else tag 2 0 @ encode_varint (from_int64 (resp_status_code r)))
     @ (if resp_data r = [] then []
        else tag 3 2 @ encode_varint (length (resp_data r)) @ resp_data r)"

text \<open>
  Modelled from the spec: parsing stores a field whose number and wire type belong to the
  message, the last occurrence winning, and skips every other field.
\<close>

fun Request_merge_field :: "Request \<Rightarrow> nat \<times> wire_value \<Rightarrow> Request" where
  "Request_merge_field r (fnum, Varint v) =
     (if fnum = 1 then r\<lparr>req_id := to_int64 v\<rparr>
      else if fnum = 3 then r\<lparr>req_timeout := to_int32 v\<rparr>
      else r)"
| "Request_merge_field r (fnum, LengthDelimited bs) =
     (if fnum = 2 then r\<lparr>req_url := utf8_decode bs\<rparr> else r)"
| "Request_merge_field r (fnum, Fixed64 bs) = r"
| "Request_merge_field r (fnum, Fixed32 bs) = r"

fun Response_merge_field :: "Response \<Rightarrow> nat \<times> wire_value \<Rightarrow> Response" where
  "Response_merge_field r (fnum, Varint v) =
     (if fnum = 1 then r\<lparr>resp_id := to_int64 v\<rparr>
      else if fnum = 2 then r\<lparr>resp_status_code := to_int32 v\<rparr>
      else r)"
| "Response_merge_field r (fnum, LengthDelimited bs) =
     (if fnum = 3 then r\<lparr>resp_data := bs\<rparr> else r)"
| "Response_merge_field r (fnum, Fixed64 bs) = r"
| "Response_merge_field r (fnum, Fixed32 bs) = r"

definition Request_ParseFromString :: "bytes \<Rightarrow> exn + Request" where
  "Request_ParseFromString bs =
     (case parse_fields bs of
        None \<Rightarrow> Inl DecodeError
      | Some fs \<Rightarrow> Inr (foldl Request_merge_field Request_new fs))"

definition Response_ParseFromString :: "bytes \<Rightarrow> exn + Response" where
  "Response_ParseFromString bs =
     (case parse_fields bs of
        None \<Rightarrow> Inl DecodeError
      | Some fs \<Rightarrow> Inr (foldl Response_merge_field Response_new fs))"

section \<open>Runs\<close>

text \<open>
  What a call does besides returning: the operations on the connection and the parsing
  of what was read, in the order of the calls, and the records it logs. A call ends with
  a value or with the exception that leaves it.
\<close>

datatype event =
    OpenConnection string nat
  | Write bytes
  | WriteEof
  | Drain
  | ReadToEof
  | ParseFromString bytes
  | Close
  | WaitClosed

record 'a run =
  events :: "event list"
  logged :: "log_record list"
  outcome :: "exn + 'a"

section \<open>RequestsDriver\<close>

text \<open>
  The answer of \<open>requests.get\<close>, or the exception it raises. \<open>r.ok\<close> is false for a
  status from 400 up to 599.
\<close>

record requests_response =
  r_text :: string
  r_url :: string
  r_status_code :: int

definition ok :: "requests_response \<Rightarrow> bool" where
  "ok r = (\<not> (400 \<le> r_status_code r \<and> r_status_code r < 600))"

definition RequestsDriver_get ::
  "Driver \<Rightarrow> URL \<Rightarrow> exn + requests_response \<Rightarrow> HttpGetResponse run" where
  "RequestsDriver_get self u http =
     (case http of
        Inl e \<Rightarrow> \<lparr>events = [], logged = [], outcome = Inl e\<rparr>
      | Inr r \<Rightarrow>
          \<lparr>events = [],
           logged = (if \<not> ok r then [Debug_status (r_status_code r) u] else []),
           outcome = Inr (HttpGetResponse_init (Str (r_text r)) (UrlStr (r_url r))
                            [''status_code'' \<mapsto> r_status_code r])\<rparr>)"

section \<open>SeleniumDriver\<close>

text \<open>
  The fresh Chrome instance of one call: starting it, loading the page, the \<open>try\<close> block
  that names and saves the screenshot, and reading the page source can each raise.
\<close>

record browser =
  chrome :: "exn option"
  load :: "exn option"
  save_screenshot :: "exn option"
  page_source :: "exn + string"

record SeleniumDriver = Driver +
  selenium_path :: string
  driver_path :: string
  options :: "string list"

definition SeleniumDriver_get ::
  "SeleniumDriver \<Rightarrow> URL \<Rightarrow> browser \<Rightarrow> HttpGetResponse run" where
  "SeleniumDriver_get self u b =
     (case chrome b of
        Some e \<Rightarrow> \<lparr>events = [], logged = [], outcome = Inl e\<rparr>
      | None \<Rightarrow>
          (case load b of
             Some e \<Rightarrow> \<lparr>events = [], logged = [], outcome = Inl e\<rparr>
           | None \<Rightarrow>
               (let warned = (case save_screenshot b of
                                Some e \<Rightarrow> [Warning_screenshot e]
                              | None \<Rightarrow> [])
                in case page_source b of
                     Inl e \<Rightarrow> \<lparr>events = [], logged = warned, outcome = Inl e\<rparr>
                   | Inr src \<Rightarrow>
                       \<lparr>events = [], logged = warned,
                        outcome = Inr (HttpGetResponse_init (Str src) (UrlObj u) Map.empty)\<rparr>)))"

section \<open>PuppeteerDriver\<close>

text \<open>
  One run of \<open>node scrape.js url html_file png_file\<close>: \<open>subprocess.run\<close> may fail to
  start it; otherwise it ends with a return code and its output, and leaves the html file
  readable with some content or not, and the screenshot written or not. The return value
  of \<open>get\<close> is an option: the method returns \<open>None\<close> where it falls off its end.
\<close>

record scrape =
  spawn :: "exn option"
  returncode :: int
  stdout :: string
  html_file :: "exn + string"
  png_file :: bool

record PuppeteerDriver = Driver +
  script_path :: string

definition PuppeteerDriver_get ::
  "PuppeteerDriver \<Rightarrow> URL \<Rightarrow> scrape \<Rightarrow> HttpGetResponse option run" where
  "PuppeteerDriver_get self u r =
     (case spawn r of
        Some e \<Rightarrow> \<lparr>events = [], logged = [], outcome = Inl e\<rparr>
      | None \<Rightarrow>
          if returncode r \<noteq> 0 then
            \<lparr>events = [], logged = [Warning_scrape_failed (stdout r)], outcome = Inr None\<rparr>
          else
            (case html_file r of
               Inl e \<Rightarrow> \<lparr>events = [], logged = [], outcome = Inl e\<rparr>
             | Inr content \<Rightarrow>
                 \<lparr>events = [], logged = [],
                  outcome = Inr (Some (HttpGetResponse_init (Str content) (UrlObj u) Map.empty))\<rparr>))"

section \<open>LeanAndMeanDriver\<close>

text \<open>
  The fetch service as one call sees it: \<open>asyncio.open_connection\<close> raises or connects,
  and \<open>reader.read()\<close> raises or returns the bytes the service wrote before it closed
  its side.
\<close>

record service =
  refuses :: "exn option"
  reply :: "exn + bytes"

definition get_impl :: "Driver \<Rightarrow> URL \<Rightarrow> service \<Rightarrow> HttpGetResponse run" where
  "get_impl self u svc =
     (case refuses svc of
        Some e \<Rightarrow> \<lparr>events = [], logged = [], outcome = Inl e\<rparr>
      | None \<Rightarrow>
          (let opened = [OpenConnection ''127.0.0.1'' 3080];
               request = Request_new\<lparr>req_id := 1337, req_url := str u\<rparr>
           in case set_timeout request (timeout self) of
                Inl e \<Rightarrow> \<lparr>events = opened, logged = [], outcome = Inl e\<rparr>
              | Inr request \<Rightarrow>
                  (let sent = opened @ [Write (Request_SerializeToString request), WriteEof,
                                         Drain, ReadToEof]
                   in case reply svc of
                        Inl e \<Rightarrow> \<lparr>events = sent, logged = [], outcome = Inl e\<rparr>
                      | Inr received \<Rightarrow>
                          (case Response_ParseFromString received of
                             Inl e \<Rightarrow>
                               \<lparr>events = sent @ [ParseFromString received], logged = [],
                                outcome = Inl e\<rparr>
                           | Inr response \<Rightarrow>
                               \<lparr>events = sent @ [ParseFromString received, Close, WaitClosed],
                                logged = [Debug_got_response (resp_id response)
                                            (resp_status_code response)
                                            (length (resp_data response))],
                                outcome = Inr (HttpGetResponse_init (Bytes (resp_data response))
                                                 (UrlObj u)
                                                 [''status_code'' \<mapsto>
                                                    resp_status_code response])\<rparr>))))"

definition LeanAndMeanDriver_get :: "Driver \<Rightarrow> URL \<Rightarrow> service \<Rightarrow> HttpGetResponse run" where
  "LeanAndMeanDriver_get self u svc = get_impl self u svc"

section \<open>DriverRepo and \<open>init_drivers\<close>\<close>

text \<open>
  The file system and the process as the constructors see them: the working directory,
  the directory of the module, the user, and the paths that exist.
\<close>

record filesystem =
  cwd :: string
  module_dir :: string
  user :: string
  existing :: "string list"

definition user_agent :: string where
  "user_agent = ''Mozilla/5.0 (X11; Linux x86_64) AppleWebKit/537.36 (KHTML, like Gecko) Chrome/90.0.4427.0 Safari/537.36''"

definition driver_paths :: "string list" where
  "driver_paths = [''/usr/bin/chromedriver'', ''/usr/local/bin/chromedriver'']"

definition join :: "string \<Rightarrow> string list \<Rightarrow> string" where
  "join sep xs = (case xs of [] \<Rightarrow> [] | x # ys \<Rightarrow> foldl (\<lambda>acc y. acc @ sep @ y) x ys)"

text \<open>
  The constructor copies the first candidate that exists to \<open>selenium/chromedriver\<close> and
  patches the copy; it raises when no file is there afterwards. The patch changes the
  content of the copy only, which no definition here reads.
\<close>

definition SeleniumDriver_init :: "filesystem \<Rightarrow> string \<Rightarrow> int \<Rightarrow> exn + SeleniumDriver" where
  "SeleniumDriver_init fs d t =
     (let sp = cwd fs @ ''/selenium'';
          dp = sp @ ''/chromedriver'';
          copied = (\<exists>p \<in> set driver_paths. p \<in> set (existing fs))
      in if \<not> (copied \<or> dp \<in> set (existing fs)) then
           Inl (Exception (''Selenium Chrome driver not found at '' @ join '' or '' driver_paths))
         else
           Inr \<lparr>data_dir = d, timeout = t, selenium_path = sp, driver_path = dp,
                options =
                  (if user fs = ''root'' then [''--no-sandbox''] else [])
                  @ [''--headless'',
                     ''--disable-blink-features=AutomationControlled'',
                     ''--disable-dev-shm-usage'',
                     ''--user-agent='' @ [CHR 0x22] @ user_agent @ [CHR 0x22],
                     ''--user-data-dir='' @ sp,
                     ''--window-position=0,0'',
                     ''--window-size=1920,1080'']\<rparr>)"

definition PuppeteerDriver_init :: "filesystem \<Rightarrow> string \<Rightarrow> int \<Rightarrow> exn + PuppeteerDriver" where
  "PuppeteerDriver_init fs d t =
     (let sp = module_dir fs @ ''/scrape.js''
      in if sp \<notin> set (existing fs) then Inl (Exception (''does not exist: '' @ sp))
         else Inr \<lparr>data_dir = d, timeout = t, script_path = sp\<rparr>)"

record DriverRepo =
  repo_data_dir :: string
  requests :: Driver
  selenium :: SeleniumDriver
  puppeteer :: PuppeteerDriver
  lean_and_mean :: Driver

definition DriverRepo_init :: "filesystem \<Rightarrow> int \<Rightarrow> exn + DriverRepo" where
  "DriverRepo_init fs t =
     (let d = cwd fs @ ''/data''
      in case SeleniumDriver_init fs d t of
           Inl e \<Rightarrow> Inl e
         | Inr s \<Rightarrow>
             (case PuppeteerDriver_init fs d t of
                Inl e \<Rightarrow> Inl e
              | Inr p \<Rightarrow>
                  Inr \<lparr>repo_data_dir = d, requests = Driver_init d t, selenium = s,
                       puppeteer = p, lean_and_mean = Driver_init d t\<rparr>))"

text \<open>
  \<open>config.refresh_interval\<close> is a Python number: an \<open>int\<close>, or a \<open>float\<close>, whose finite
  values are rationals. \<open>max(a, b)\<close> is \<open>b\<close> when \<open>b > a\<close> and \<open>a\<close> otherwise; \<open>int()\<close>
  cuts the fraction off, towards zero.
\<close>

datatype pynum = PyInt int | PyFloat rat

fun value_of :: "pynum \<Rightarrow> rat" where
  "value_of (PyInt i) = of_int i"
| "value_of (PyFloat q) = q"

definition py_max :: "pynum \<Rightarrow> pynum \<Rightarrow> pynum" where
  "py_max a b = (if value_of b > value_of a then b else a)"

fun py_int :: "pynum \<Rightarrow> int" where
  "py_int (PyInt i) = i"
| "py_int (PyFloat q) = (if 0 \<le> q then \<lfloor>q\<rfloor> else \<lceil>q\<rceil>)"

record config =
  refresh_interval :: pynum

definition init_drivers :: "filesystem \<Rightarrow> config \<Rightarrow> exn + DriverRepo" where
  "init_drivers fs cfg =
     (let timeout = py_int (py_max (refresh_interval cfg) (PyInt 15))
      in DriverRepo_init fs timeout)"

section \<open>Properties\<close>

subsection \<open>Evaluation\<close>

text \<open>
  The facts that evaluate the definitions on concrete input, and the examples the
  theorems below are run on.
\<close>

lemmas wire_defs = read_field_def Let_def to_int64_def to_int32_def from_int64_def
  utf8_encode_def utf8_decode_def char_of_eq_iff take_bit_eq_mod tag_def
  encode_varint.simps parse_fields.simps

lemmas get_impl_defs = get_impl_def HttpGetResponse_init_def set_timeout_def Let_def

lemmas init_defs = init_drivers_def DriverRepo_init_def SeleniumDriver_init_def
  PuppeteerDriver_init_def Driver_init_def Let_def driver_paths_def py_max_def

lemma Response_ParseFromString_Nil: "Response_ParseFromString [] = Inr Response_new"
  by (simp add: Response_ParseFromString_def parse_fields.simps)

lemma Response_example_1337:
  "Response_ParseFromString [8, 185, 10, 16, 200, 1, 26, 2, 104, 105] =
     Inr \<lparr>resp_id = 1337, resp_status_code = 200, resp_data = [104, 105]\<rparr>"
  by (simp add: Response_ParseFromString_def Response_new_def wire_defs)

lemma Response_example_1:
  "Response_ParseFromString [8, 1, 16, 200, 1, 26, 2, 104, 105] =
     Inr \<lparr>resp_id = 1, resp_status_code = 200, resp_data = [104, 105]\<rparr>"
  by (simp add: Response_ParseFromString_def Response_new_def wire_defs)

lemma Response_example_truncated: "Response_ParseFromString [255] = Inl DecodeError"
  by (simp add: Response_ParseFromString_def wire_defs)

lemma Request_example_bytes:
  "Request_SerializeToString
     \<lparr>req_id = 1337, req_url = ''http://example.test'', req_timeout = 15\<rparr>
   = [8, 185, 10, 18, 19, 104, 116, 116, 112, 58, 47, 47, 101, 120, 97, 109, 112, 108, 101,
      46, 116, 101, 115, 116, 24, 15]"
  by (simp add: Request_SerializeToString_def wire_defs)

lemma Request_example_parsed:
  "Request_ParseFromString
     [8, 185, 10, 18, 19, 104, 116, 116, 112, 58, 47, 47, 101, 120, 97, 109, 112, 108, 101,
      46, 116, 101, 115, 116, 24, 15]
   = Inr \<lparr>req_id = 1337, req_url = ''http://example.test'', req_timeout = 15\<rparr>"
  by (simp add: Request_ParseFromString_def Request_new_def wire_defs)

lemma events_example:
  "events (get_impl \<lparr>data_dir = ''/app/data'', timeout = 15\<rparr>
        \<lparr>address = ''http://example.test'', nickname = ''example''\<rparr>
        \<lparr>refuses = None, reply = Inr [8, 185, 10, 16, 200, 1, 26, 2, 104, 105]\<rparr>) =
      [OpenConnection ''127.0.0.1'' 3080,
       Write [8, 185, 10, 18, 19, 104, 116, 116, 112, 58, 47, 47, 101, 120, 97, 109, 112,
              108, 101, 46, 116, 101, 115, 116, 24, 15],
       WriteEof, Drain, ReadToEof,
       ParseFromString [8, 185, 10, 16, 200, 1, 26, 2, 104, 105], Close, WaitClosed]"
proof -
  have r: "Request_new\<lparr>req_id := 1337, req_url := ''http://example.test'', req_timeout := 15\<rparr>
      = \<lparr>req_id = 1337, req_url = ''http://example.test'', req_timeout = 15\<rparr>"
    by (simp add: Request_new_def)
  show ?thesis
    by (simp add: get_impl_defs Response_example_1337 str_def r Request_example_bytes)
qed

lemma floor_example: "\<lfloor>41 / 2 :: rat\<rfloor> = 20"
  by (rule floor_unique) simp_all

subsection \<open>The wire format loses nothing\<close>

text \<open>
  Parsing undoes serializing, for every message whose integers fit their fields: the
  varint decoder reads back what the encoder wrote, a field is read back behind its key,
  and two's complement and the bytes of a string are recovered.
\<close>

lemma unat_byte: "n < 256 \<Longrightarrow> unat (of_nat n :: byte) = n"
  by (rule of_nat_inverse) simp_all

lemma decode_encode_varint:
  "0 < k \<Longrightarrow> n < 2 ^ (7 * k) \<Longrightarrow> decode_varint k (encode_varint n @ rest) = Some (n, rest)"
proof (induction n arbitrary: k rule: encode_varint.induct)
  case (1 n)
  show ?case
  proof (cases "n < 128")
    case True
    then have "unat (of_nat n :: byte) = n" by (simp add: unat_byte)
    with True "1.prems" show ?thesis
      by (subst encode_varint.simps) simp
  next
    case False
    have b: "unat (of_nat (128 + n mod 128) :: byte) = 128 + n mod 128"
      by (rule unat_byte) simp
    from False "1.prems" have k: "1 < k"
      by (cases "k = 1") auto
    have "n div 128 < 2 ^ (7 * (k - 1))"
    proof -
      from k have "(2::nat) ^ (7 * k) = 128 * 2 ^ (7 * (k - 1))"
        by (cases k) (simp_all add: power_add)
      with "1.prems" show ?thesis
        by (simp add: less_mult_imp_div_less mult.commute)
    qed
    with k have "decode_varint (k - 1) (encode_varint (n div 128) @ rest) = Some (n div 128, rest)"
      using "1.IH" [OF False, of "k - 1"] by simp
    with False b k show ?thesis
      by (subst encode_varint.simps) simp
  qed
qed

lemma from_int64_bound: "from_int64 i < 2 ^ 64"
proof -
  have "i mod 2 ^ 64 < 2 ^ 64" by simp
  then show ?thesis unfolding from_int64_def by (simp add: nat_less_iff)
qed

lemma int_from_int64: "int (from_int64 i) = i mod 2 ^ 64"
  by (simp add: from_int64_def)

lemma to_int64_from_int64:
  assumes "- (2 ^ 63) \<le> i" and "i < 2 ^ 63"
  shows "to_int64 (from_int64 i) = i"
proof (cases "0 \<le> i")
  case True
  with assms have "i mod 2 ^ 64 = i" by (simp add: mod_pos_pos_trivial)
  with assms show ?thesis by (simp add: to_int64_def int_from_int64 Let_def)
next
  case False
  from False assms have "i mod 2 ^ 64 = i + 2 ^ 64"
    by (intro int_mod_pos_eq [where q = "- 1"]) simp_all
  with False assms show ?thesis by (simp add: to_int64_def int_from_int64 Let_def)
qed

lemma to_int32_from_int64:
  assumes "- (2 ^ 31) \<le> i" and "i < 2 ^ 31"
  shows "to_int32 (from_int64 i) = i"
proof -
  have "(2::int) ^ 32 dvd 2 ^ 64" by (rule le_imp_power_dvd) simp
  then have m: "i mod 2 ^ 64 mod 2 ^ 32 = i mod 2 ^ 32" by (rule mod_mod_cancel)
  show ?thesis
  proof (cases "0 \<le> i")
    case True
    with assms have "i mod 2 ^ 32 = i" by (simp add: mod_pos_pos_trivial)
    with assms m show ?thesis by (simp add: to_int32_def int_from_int64 Let_def)
  next
    case False
    from False assms have "i mod 2 ^ 32 = i + 2 ^ 32"
      by (intro int_mod_pos_eq [where q = "- 1"]) simp_all
    with False assms m show ?thesis by (simp add: to_int32_def int_from_int64 Let_def)
  qed
qed

lemma utf8_decode_encode: "utf8_decode (utf8_encode s) = s"
proof -
  have "char_of (unat (of_nat (of_char c) :: byte)) = c" for c
  proof -
    have "unat (of_nat (of_char c) :: byte) = of_char c"
      by (rule unat_byte) simp
    then show ?thesis by simp
  qed
  then show ?thesis by (simp add: utf8_decode_def utf8_encode_def comp_def)
qed

lemma read_field_Varint:
  assumes "0 < fnum" and "fnum < 2 ^ 60" and "v < 2 ^ 64"
  shows "read_field (tag fnum 0 @ encode_varint v @ rest) = Some ((fnum, Varint v), rest)"
proof -
  from assms have "8 * fnum < 2 ^ (7 * 10)" by simp
  then have k: "decode_varint 10 (encode_varint (8 * fnum) @ encode_varint v @ rest) =
      Some (8 * fnum, encode_varint v @ rest)"
    by (rule decode_encode_varint [rotated]) simp
  from assms have "v < 2 ^ (7 * 10)" by simp
  then have p: "decode_varint 10 (encode_varint v @ rest) = Some (v, rest)"
    by (rule decode_encode_varint [rotated]) simp
  from assms show ?thesis by (simp add: read_field_def tag_def k p)
qed

lemma read_field_LengthDelimited:
  assumes "0 < fnum" and "fnum < 2 ^ 60" and "length bs < 2 ^ 64"
  shows "read_field (tag fnum 2 @ encode_varint (length bs) @ bs @ rest) =
           Some ((fnum, LengthDelimited bs), rest)"
proof -
  from assms have "8 * fnum + 2 < 2 ^ (7 * 10)" by simp
  then have k: "decode_varint 10
        (encode_varint (8 * fnum + 2) @ encode_varint (length bs) @ bs @ rest) =
      Some (8 * fnum + 2, encode_varint (length bs) @ bs @ rest)"
    by (rule decode_encode_varint [rotated]) simp
  from assms have "length bs < 2 ^ (7 * 10)" by simp
  then have p: "decode_varint 10 (encode_varint (length bs) @ bs @ rest) =
      Some (length bs, bs @ rest)"
    by (rule decode_encode_varint [rotated]) simp
  have d: "(8 * fnum + 2) div 8 = fnum" "(8 * fnum + 2) mod 8 = 2" by presburger+
  from assms show ?thesis by (simp add: read_field_def tag_def k p d del: add_2_eq_Suc add_2_eq_Suc')
qed

lemma parse_fields_step:
  assumes "read_field bs = Some (f, r)"
  shows "parse_fields bs = map_option ((#) f) (parse_fields r)"
proof -
  from assms have "bs \<noteq> []" by (auto simp: read_field_def)
  with assms show ?thesis
    by (subst parse_fields.simps) (simp split: option.splits)
qed

lemma parse_fields_Varint:
  assumes "0 < fnum" and "fnum < 2 ^ 60" and "v < 2 ^ 64"
  shows "parse_fields ((tag fnum 0 @ encode_varint v) @ rest) =
           map_option ((#) (fnum, Varint v)) (parse_fields rest)"
  using read_field_Varint [OF assms, of rest] by (simp add: parse_fields_step)

lemma parse_fields_LengthDelimited:
  assumes "0 < fnum" and "fnum < 2 ^ 60" and "length bs < 2 ^ 64"
  shows "parse_fields ((tag fnum 2 @ encode_varint (length bs) @ bs) @ rest) =
           map_option ((#) (fnum, LengthDelimited bs)) (parse_fields rest)"
  using read_field_LengthDelimited [OF assms, of rest] by (simp add: parse_fields_step)

lemma Request_roundtrip:
  assumes "- (2 ^ 63) \<le> req_id r" and "req_id r < 2 ^ 63"
    and "- (2 ^ 31) \<le> req_timeout r" and "req_timeout r < 2 ^ 31"
    and "length (req_url r) < 2 ^ 64"
  shows "Request_ParseFromString (Request_SerializeToString r) = Inr r"
proof -
  let ?i = "if req_id r = 0 then [] else [(1, Varint (from_int64 (req_id r)))]"
  let ?u = "if req_url r = [] then [] else [(2, LengthDelimited (utf8_encode (req_url r)))]"
  let ?t = "if req_timeout r = 0 then [] else [(3, Varint (from_int64 (req_timeout r)))]"
  from assms have l: "length (utf8_encode (req_url r)) < 2 ^ 64"
    by (simp add: utf8_encode_def)
  have t: "parse_fields
      (if req_timeout r = 0 then []
       else tag 3 0 @ encode_varint (from_int64 (req_timeout r))) = Some ?t"
    using parse_fields_Varint [where fnum = 3 and v = "from_int64 (req_timeout r)"
        and rest = "[]", OF _ _ from_int64_bound]
    by (simp add: parse_fields.simps [of "[]"])
  have u: "parse_fields
      ((if req_url r = [] then []
        else tag 2 2 @ encode_varint (length (utf8_encode (req_url r)))
             @ utf8_encode (req_url r)) @ rest) = map_option ((@) ?u) (parse_fields rest)" for rest
    using parse_fields_LengthDelimited [where fnum = 2 and bs = "utf8_encode (req_url r)"
        and rest = rest, OF _ _ l]
    by (cases "parse_fields rest") simp_all
  have i: "parse_fields
      ((if req_id r = 0 then []
        else tag 1 0 @ encode_varint (from_int64 (req_id r))) @ rest)
      = map_option ((@) ?i) (parse_fields rest)" for rest
    using parse_fields_Varint [where fnum = 1 and v = "from_int64 (req_id r)"
        and rest = rest, OF _ _ from_int64_bound]
    by (cases "parse_fields rest") simp_all
  have "parse_fields (Request_SerializeToString r) = Some (?i @ ?u @ ?t)"
    unfolding Request_SerializeToString_def by (simp only: i u t option.map)
  moreover have "foldl Request_merge_field Request_new (?i @ ?u @ ?t) = r"
    using assms
    by (simp add: Request_new_def to_int64_from_int64 to_int32_from_int64 utf8_decode_encode)
  ultimately show ?thesis by (simp add: Request_ParseFromString_def)
qed

lemma Response_roundtrip:
  assumes "- (2 ^ 63) \<le> resp_id r" and "resp_id r < 2 ^ 63"
    and "- (2 ^ 31) \<le> resp_status_code r" and "resp_status_code r < 2 ^ 31"
    and "length (resp_data r) < 2 ^ 64"
  shows "Response_ParseFromString (Response_SerializeToString r) = Inr r"
proof -
  let ?i = "if resp_id r = 0 then [] else [(1, Varint (from_int64 (resp_id r)))]"
  let ?s = "if resp_status_code r = 0 then []
            else [(2, Varint (from_int64 (resp_status_code r)))]"
  let ?d = "if resp_data r = [] then [] else [(3, LengthDelimited (resp_data r))]"
  have d: "parse_fields
      (if resp_data r = [] then []
       else tag 3 2 @ encode_varint (length (resp_data r)) @ resp_data r) = Some ?d"
    using parse_fields_LengthDelimited [where fnum = 3 and bs = "resp_data r"
        and rest = "[]", OF _ _ assms(5)]
    by (simp add: parse_fields.simps [of "[]"])
  have s: "parse_fields
      ((if resp_status_code r = 0 then []
        else tag 2 0 @ encode_varint (from_int64 (resp_status_code r))) @ rest)
      = map_option ((@) ?s) (parse_fields rest)" for rest
    using parse_fields_Varint [where fnum = 2 and v = "from_int64 (resp_status_code r)"
        and rest = rest, OF _ _ from_int64_bound]
    by (cases "parse_fields rest") simp_all
  have i: "parse_fields
      ((if resp_id r = 0 then []
        else tag 1 0 @ encode_varint (from_int64 (resp_id r))) @ rest)
      = map_option ((@) ?i) (parse_fields rest)" for rest
    using parse_fields_Varint [where fnum = 1 and v = "from_int64 (resp_id r)"
        and rest = rest, OF _ _ from_int64_bound]
    by (cases "parse_fields rest") simp_all
  have "parse_fields (Response_SerializeToString r) = Some (?i @ ?s @ ?d)"
    unfolding Response_SerializeToString_def by (simp only: i s d option.map)
  moreover have "foldl Response_merge_field Response_new (?i @ ?s @ ?d) = r"
    using assms
    by (simp add: Response_new_def to_int64_from_int64 to_int32_from_int64)
  ultimately show ?thesis by (simp add: Response_ParseFromString_def)
qed

subsection \<open>The drivers, case by case\<close>

lemma py_int_py_max: "py_int (py_max a (PyInt 15)) = \<lfloor>max (value_of a) 15\<rfloor>"
proof (cases a)
  case (PyInt i)
  have "\<lfloor>max (of_int i :: rat) 15\<rfloor> = max i 15"
  proof (cases "i < 15")
    case True
    then have "(of_int i :: rat) < 15" by simp
    then have "max (of_int i :: rat) 15 = 15" by simp
    with True show ?thesis by simp
  next
    case False
    then have "\<not> (of_int i :: rat) < 15" by simp
    then have "max (of_int i :: rat) 15 = of_int i" by simp
    with False show ?thesis by simp
  qed
  with PyInt show ?thesis by (simp add: py_max_def max_def)
next
  case (PyFloat q)
  show ?thesis
  proof (cases "q < 15")
    case True
    with PyFloat show ?thesis by (simp add: py_max_def max_def)
  next
    case False
    then have "max q 15 = q" and "0 \<le> q" by simp_all
    with PyFloat False show ?thesis by (simp add: py_max_def)
  qed
qed

lemma DriverRepo_init_timeouts:
  assumes "DriverRepo_init fs t = Inr repo"
  shows "timeout (requests repo) = t" and "timeout (selenium repo) = t"
    and "timeout (puppeteer repo) = t" and "timeout (lean_and_mean repo) = t"
  using assms
  by (auto simp: DriverRepo_init_def SeleniumDriver_init_def PuppeteerDriver_init_def
      Driver_init_def Let_def split: sum.splits if_splits)

text \<open>The five ways a call of \<open>get_impl\<close> ends, each with all it did.\<close>

lemma get_impl_refused:
  assumes "refuses svc = Some e"
  shows "get_impl self u svc = \<lparr>events = [], logged = [], outcome = Inl e\<rparr>"
  using assms by (simp add: get_impl_def)

lemma get_impl_ValueError:
  assumes "refuses svc = None"
    and "\<not> (- (2 ^ 31) \<le> timeout self \<and> timeout self < 2 ^ 31)"
  shows "get_impl self u svc =
           \<lparr>events = [OpenConnection ''127.0.0.1'' 3080], logged = [],
            outcome = Inl ValueError\<rparr>"
proof -
  from assms(2) have "set_timeout r (timeout self) = Inl ValueError" for r
    by (auto simp: set_timeout_def)
  with assms(1) show ?thesis by (simp add: get_impl_def Let_def)
qed

lemma get_impl_read_failed:
  assumes "refuses svc = None"
    and "- (2 ^ 31) \<le> timeout self \<and> timeout self < 2 ^ 31"
    and "reply svc = Inl e"
  shows "get_impl self u svc =
           \<lparr>events = [OpenConnection ''127.0.0.1'' 3080,
                      Write (Request_SerializeToString
                               \<lparr>req_id = 1337, req_url = str u,
                                  req_timeout = timeout self\<rparr>),
                      WriteEof, Drain, ReadToEof],
            logged = [], outcome = Inl e\<rparr>"
  using assms by (simp add: get_impl_defs Request_new_def)

lemma get_impl_parse_failed:
  assumes "refuses svc = None"
    and "- (2 ^ 31) \<le> timeout self \<and> timeout self < 2 ^ 31"
    and "reply svc = Inr received"
    and "Response_ParseFromString received = Inl e"
  shows "get_impl self u svc =
           \<lparr>events = [OpenConnection ''127.0.0.1'' 3080,
                      Write (Request_SerializeToString
                               \<lparr>req_id = 1337, req_url = str u,
                                  req_timeout = timeout self\<rparr>),
                      WriteEof, Drain, ReadToEof, ParseFromString received],
            logged = [], outcome = Inl e\<rparr>"
  using assms by (simp add: get_impl_defs Request_new_def)

lemma get_impl_parsed:
  assumes "refuses svc = None"
    and "- (2 ^ 31) \<le> timeout self \<and> timeout self < 2 ^ 31"
    and "reply svc = Inr received"
    and "Response_ParseFromString received = Inr response"
  shows "get_impl self u svc =
           \<lparr>events = [OpenConnection ''127.0.0.1'' 3080,
                      Write (Request_SerializeToString
                               \<lparr>req_id = 1337, req_url = str u,
                                  req_timeout = timeout self\<rparr>),
                      WriteEof, Drain, ReadToEof, ParseFromString received, Close,
                      WaitClosed],
            logged = [Debug_got_response (resp_id response) (resp_status_code response)
                        (length (resp_data response))],
            outcome = Inr \<lparr>page_text = Bytes (resp_data response), url = UrlObj u,
                          status_code = Some (resp_status_code response)\<rparr>\<rparr>"
  using assms by (simp add: get_impl_defs Request_new_def)

lemma Selenium_screenshot_failure:
  assumes "chrome b = None" and "load b = None" and "page_source b = Inr src"
  shows "outcome (SeleniumDriver_get s u b) =
            Inr \<lparr>page_text = Str src, url = UrlObj u, status_code = None\<rparr>"
    and "save_screenshot b = Some e \<Longrightarrow> logged (SeleniumDriver_get s u b) = [Warning_screenshot e]"
  using assms
  by (simp_all add: SeleniumDriver_get_def HttpGetResponse_init_def Let_def)

lemma Puppeteer_outcome:
  assumes "spawn r = None" and "returncode r = 0"
  shows "outcome (PuppeteerDriver_get p u r) =
           (case html_file r of
              Inl e \<Rightarrow> Inl e
            | Inr content \<Rightarrow>
                Inr (Some \<lparr>page_text = Str content, url = UrlObj u, status_code = None\<rparr>))"
  using assms
  by (simp add: PuppeteerDriver_get_def HttpGetResponse_init_def split: sum.splits)

lemma Puppeteer_ignores_png:
  "PuppeteerDriver_get p u (r\<lparr>png_file := x\<rparr>) = PuppeteerDriver_get p u r"
  by (simp add: PuppeteerDriver_get_def split: option.splits sum.splits)

lemma Selenium_status_code:
  "outcome (SeleniumDriver_get s u b) = Inr res \<Longrightarrow> status_code res = None"
  by (auto simp: SeleniumDriver_get_def HttpGetResponse_init_def Let_def
      split: option.splits sum.splits)

lemma Puppeteer_status_code:
  "outcome (PuppeteerDriver_get p u r) = Inr (Some res) \<Longrightarrow> status_code res = None"
  by (auto simp: PuppeteerDriver_get_def HttpGetResponse_init_def
      split: option.splits sum.splits if_splits)

lemma Requests_status_code:
  "outcome (RequestsDriver_get d u h) = Inr res \<Longrightarrow> status_code res \<noteq> None"
  by (auto simp: RequestsDriver_get_def HttpGetResponse_init_def split: sum.splits)

lemma LeanAndMean_status_code:
  "outcome (LeanAndMeanDriver_get d u svc) = Inr res \<Longrightarrow> status_code res \<noteq> None"
  by (auto simp: LeanAndMeanDriver_get_def get_impl_defs
      split: option.splits sum.splits if_splits)

subsection \<open>C1: Every call returns a result or fails\<close>

text \<open>
  Claim C1: for every target and every driver, \<open>get\<close> returns an \<open>HttpGetResponse\<close> with a
  body or fails with an exception; it never returns \<open>None\<close>. The source breaks it:
  \<open>PuppeteerDriver.get\<close>, annotated \<open>-> HttpGetResponse\<close>, logs a warning and falls off
  its end when the script ends with a return code other than 0. The theorem runs it there.
\<close>

theorem PuppeteerDriver_get_returns_None:
  "outcome (PuppeteerDriver_get
      \<lparr>data_dir = ''/app/data'', timeout = 15, script_path = ''/app/src/scrape.js''\<rparr>
      \<lparr>address = ''http://example.test'', nickname = ''example''\<rparr>
      \<lparr>spawn = None, returncode = 1, stdout = ''TimeoutError'',
       html_file = Inl (OSError ''No such file or directory''), png_file = False\<rparr>)
   = Inr None"
  by (simp add: PuppeteerDriver_get_def)

subsection \<open>C2: A service that writes nothing\<close>

text \<open>
  Claim C2, as amended: when the service closes the connection without writing a byte,
  \<open>get_impl\<close> raises nothing. The empty input parses as the message with every field
  at its default, and the call returns an \<open>HttpGetResponse\<close> whose body is the empty
  \<open>bytes\<close>, whose status code is 0 and whose url is the requested one.
\<close>

theorem get_impl_empty_reply:
  assumes "refuses svc = None" and "reply svc = Inr []"
    and "- (2 ^ 31) \<le> timeout self" and "timeout self < 2 ^ 31"
  shows "outcome (get_impl self u svc) =
           Inr \<lparr>page_text = Bytes [], url = UrlObj u, status_code = Some 0\<rparr>"
  using assms by (simp add: get_impl_defs Response_ParseFromString_Nil Response_new_def)

text \<open>The amended claim C2 at a driver with timeout 15.\<close>

theorem get_impl_empty_reply_witness:
  "outcome (get_impl \<lparr>data_dir = ''/app/data'', timeout = 15\<rparr>
      \<lparr>address = ''http://example.test'', nickname = ''example''\<rparr>
      \<lparr>refuses = None, reply = Inr []\<rparr>)
   = Inr \<lparr>page_text = Bytes [],
          url = UrlObj \<lparr>address = ''http://example.test'', nickname = ''example''\<rparr>,
          status_code = Some 0\<rparr>"
  using get_impl_empty_reply [of "\<lparr>refuses = None, reply = Inr []\<rparr>"
      "\<lparr>data_dir = ''/app/data'', timeout = 15\<rparr>"
      "\<lparr>address = ''http://example.test'', nickname = ''example''\<rparr>"]
  by simp

text \<open>
  Claim C2 as stated fails there: the empty reply raises no \<open>DecodeError\<close>, and the call
  returns a result with an empty body.
\<close>

theorem get_impl_empty_reply_counterexample:
  "outcome (get_impl \<lparr>data_dir = ''/app/data'', timeout = 15\<rparr>
      \<lparr>address = ''http://example.test'', nickname = ''example''\<rparr>
      \<lparr>refuses = None, reply = Inr []\<rparr>) \<noteq> Inl DecodeError
   \<and> outcome (get_impl \<lparr>data_dir = ''/app/data'', timeout = 15\<rparr>
      \<lparr>address = ''http://example.test'', nickname = ''example''\<rparr>
      \<lparr>refuses = None, reply = Inr []\<rparr>)
     = Inr \<lparr>page_text = Bytes [],
          url = UrlObj \<lparr>address = ''http://example.test'', nickname = ''example''\<rparr>,
          status_code = Some 0\<rparr>"
  by (simp add: get_impl_defs Response_ParseFromString_Nil Response_new_def)

subsection \<open>C3: The id of the response\<close>

text \<open>
  Claim C3: the result of \<open>get_impl\<close> does not depend on the \<open>id\<close> of the response. Two
  replies that parse to responses with the same status code and data, whatever their
  ids, give the same outcome, and that outcome is a result: no id makes the call fail.
\<close>

theorem get_impl_ignores_response_id:
  assumes "Response_ParseFromString received1 = Inr response1"
    and "Response_ParseFromString received2 = Inr response2"
    and "resp_status_code response1 = resp_status_code response2"
    and "resp_data response1 = resp_data response2"
    and "- (2 ^ 31) \<le> timeout self" and "timeout self < 2 ^ 31"
  shows "outcome (get_impl self u \<lparr>refuses = None, reply = Inr received1\<rparr>) =
         outcome (get_impl self u \<lparr>refuses = None, reply = Inr received2\<rparr>)
       \<and> (\<exists>res. outcome (get_impl self u \<lparr>refuses = None, reply = Inr received1\<rparr>) = Inr res)"
  using assms by (simp add: get_impl_defs)

text \<open>Claim C3 at two replies with the ids 1 and 1337.\<close>

theorem get_impl_ignores_response_id_witness:
  "Response_ParseFromString [8, 1, 16, 200, 1, 26, 2, 104, 105] =
     Inr \<lparr>resp_id = 1, resp_status_code = 200, resp_data = [104, 105]\<rparr>
   \<and> Response_ParseFromString [8, 185, 10, 16, 200, 1, 26, 2, 104, 105] =
     Inr \<lparr>resp_id = 1337, resp_status_code = 200, resp_data = [104, 105]\<rparr>
   \<and> outcome (get_impl \<lparr>data_dir = ''/app/data'', timeout = 15\<rparr>
        \<lparr>address = ''http://example.test'', nickname = ''example''\<rparr>
        \<lparr>refuses = None, reply = Inr [8, 1, 16, 200, 1, 26, 2, 104, 105]\<rparr>) =
     outcome (get_impl \<lparr>data_dir = ''/app/data'', timeout = 15\<rparr>
        \<lparr>address = ''http://example.test'', nickname = ''example''\<rparr>
        \<lparr>refuses = None, reply = Inr [8, 185, 10, 16, 200, 1, 26, 2, 104, 105]\<rparr>)"
  using get_impl_ignores_response_id [OF Response_example_1 Response_example_1337,
      of "\<lparr>data_dir = ''/app/data'', timeout = 15\<rparr>"
         "\<lparr>address = ''http://example.test'', nickname = ''example''\<rparr>"]
    Response_example_1 Response_example_1337
  by simp

subsection \<open>C4: The timeout of the repository\<close>

text \<open>
  Claim C4, as amended: every driver of the repository \<open>init_drivers\<close> builds has the same
  timeout, \<open>int(max(refresh_interval, 15))\<close>: the larger of the refresh interval and 15,
  with its fraction cut off. For a refresh interval that is an \<open>int\<close> this is
  \<open>max(refresh_interval, 15)\<close> itself, so 5 gives 15 and 30 gives 30.
\<close>

theorem init_drivers_timeout:
  assumes "init_drivers fs cfg = Inr repo"
  shows "timeout (requests repo) = \<lfloor>max (value_of (refresh_interval cfg)) 15\<rfloor>
       \<and> timeout (selenium repo) = \<lfloor>max (value_of (refresh_interval cfg)) 15\<rfloor>
       \<and> timeout (puppeteer repo) = \<lfloor>max (value_of (refresh_interval cfg)) 15\<rfloor>
       \<and> timeout (lean_and_mean repo) = \<lfloor>max (value_of (refresh_interval cfg)) 15\<rfloor>
       \<and> (\<forall>n. refresh_interval cfg = PyInt n \<longrightarrow> timeout (lean_and_mean repo) = max n 15)"
proof -
  from assms have r: "DriverRepo_init fs (py_int (py_max (refresh_interval cfg) (PyInt 15))) = Inr repo"
    by (simp add: init_drivers_def)
  have "\<lfloor>max (of_int n :: rat) 15\<rfloor> = max n 15" for n :: int
    using py_int_py_max [of "PyInt n"] by (simp add: py_max_def max_def)
  then show ?thesis
    using DriverRepo_init_timeouts [OF r] by (simp add: py_int_py_max)
qed

text \<open>The amended claim C4 at the refresh interval 5.\<close>

theorem init_drivers_timeout_witness:
  "\<exists>repo. init_drivers
        \<lparr>cwd = ''/app'', module_dir = ''/app/src'', user = ''root'',
         existing = [''/usr/bin/chromedriver'', ''/app/src/scrape.js'']\<rparr>
        \<lparr>refresh_interval = PyInt 5\<rparr> = Inr repo
      \<and> timeout (requests repo) = 15 \<and> timeout (selenium repo) = 15
      \<and> timeout (puppeteer repo) = 15 \<and> timeout (lean_and_mean repo) = 15"
proof -
  obtain repo where r: "init_drivers
        \<lparr>cwd = ''/app'', module_dir = ''/app/src'', user = ''root'',
         existing = [''/usr/bin/chromedriver'', ''/app/src/scrape.js'']\<rparr>
        \<lparr>refresh_interval = PyInt 5\<rparr> = Inr repo"
    by (simp add: init_defs)
  from init_drivers_timeout [OF r] have
    "timeout (requests repo) = 15" "timeout (selenium repo) = 15"
    "timeout (puppeteer repo) = 15" "timeout (lean_and_mean repo) = 15"
    by simp_all
  with r show ?thesis by blast
qed

text \<open>
  Claim C4 as stated fails at the refresh interval 20.5: the timeout is 20, and
  \<open>max(20.5, 15)\<close> is 20.5.
\<close>

theorem init_drivers_timeout_counterexample:
  "map_sum id (timeout \<circ> lean_and_mean)
     (init_drivers
        \<lparr>cwd = ''/app'', module_dir = ''/app/src'', user = ''root'',
         existing = [''/usr/bin/chromedriver'', ''/app/src/scrape.js'']\<rparr>
        \<lparr>refresh_interval = PyFloat (41 / 2)\<rparr>) = Inr 20
   \<and> max (value_of (PyFloat (41 / 2))) 15 = 41 / 2
   \<and> (of_int 20 :: rat) \<noteq> 41 / 2"
  by (simp add: init_defs floor_example)

subsection \<open>C5: The result of a successful read\<close>

text \<open>
  Claim C5: on a successful read, \<open>get_impl\<close> returns the \<open>data\<close> of the response as the
  body, its \<open>status_code\<close> as the status code, and the requested url as the url.
\<close>

theorem get_impl_maps_response:
  assumes "refuses svc = None" and "reply svc = Inr received"
    and "Response_ParseFromString received = Inr response"
    and "- (2 ^ 31) \<le> timeout self" and "timeout self < 2 ^ 31"
  shows "outcome (get_impl self u svc) =
           Inr \<lparr>page_text = Bytes (resp_data response), url = UrlObj u,
                status_code = Some (resp_status_code response)\<rparr>"
  using assms by (simp add: get_impl_defs)

text \<open>Claim C5 at a reply with status code 200 and two bytes of data.\<close>

theorem get_impl_maps_response_witness:
  "outcome (get_impl \<lparr>data_dir = ''/app/data'', timeout = 15\<rparr>
        \<lparr>address = ''http://example.test'', nickname = ''example''\<rparr>
        \<lparr>refuses = None, reply = Inr [8, 185, 10, 16, 200, 1, 26, 2, 104, 105]\<rparr>) =
     Inr \<lparr>page_text = Bytes [104, 105],
          url = UrlObj \<lparr>address = ''http://example.test'', nickname = ''example''\<rparr>,
          status_code = Some 200\<rparr>"
  using get_impl_maps_response [OF _ _ Response_example_1337,
      of "\<lparr>refuses = None, reply = Inr [8, 185, 10, 16, 200, 1, 26, 2, 104, 105]\<rparr>"
         "\<lparr>data_dir = ''/app/data'', timeout = 15\<rparr>"
         "\<lparr>address = ''http://example.test'', nickname = ''example''\<rparr>"]
  by simp

subsection \<open>C6: The request of the specification, there and back\<close>

text \<open>
  Claim C6: serializing the request with id 1337, url \<open>http://example.test\<close> and timeout
  15, then parsing the bytes, gives the same request back.
\<close>

theorem Request_roundtrip_example:
  "Request_ParseFromString
     (Request_SerializeToString
        \<lparr>req_id = 1337, req_url = ''http://example.test'', req_timeout = 15\<rparr>)
   = Inr \<lparr>req_id = 1337, req_url = ''http://example.test'', req_timeout = 15\<rparr>"
  by (simp only: Request_example_bytes Request_example_parsed)

subsection \<open>C7: The order of the exchange\<close>

text \<open>
  Claim C7, as amended: what a call of \<open>get_impl\<close> does on the connection is an initial
  part of the sequence: open the connection, write the serialized request (one write),
  \<open>write_eof\<close>, \<open>drain\<close>, read to the end of the stream, parse, \<open>close\<close>,
  \<open>wait_closed\<close>. What is parsed are the bytes that were read. A call that returns a
  result has performed the whole sequence: the bytes read were deserialized as one
  response before the close, and the result is made of that response. So no call writes
  after the half-close or reads before the request is sent.
\<close>

theorem get_impl_wire_order:
  "(\<exists>received.
      prefix (events (get_impl self u svc))
        [OpenConnection ''127.0.0.1'' 3080,
         Write (Request_SerializeToString
                  \<lparr>req_id = 1337, req_url = str u, req_timeout = timeout self\<rparr>),
         WriteEof, Drain, ReadToEof, ParseFromString received, Close, WaitClosed])
   \<and> (\<forall>parsed. ParseFromString parsed \<in> set (events (get_impl self u svc)) \<longrightarrow>
         reply svc = Inr parsed)
   \<and> (\<forall>res. outcome (get_impl self u svc) = Inr res \<longrightarrow>
         (\<exists>received response.
            reply svc = Inr received
            \<and> Response_ParseFromString received = Inr response
            \<and> events (get_impl self u svc) =
                [OpenConnection ''127.0.0.1'' 3080,
                 Write (Request_SerializeToString
                          \<lparr>req_id = 1337, req_url = str u, req_timeout = timeout self\<rparr>),
                 WriteEof, Drain, ReadToEof, ParseFromString received, Close, WaitClosed]
            \<and> res = \<lparr>page_text = Bytes (resp_data response), url = UrlObj u,
                      status_code = Some (resp_status_code response)\<rparr>))"
proof (cases "refuses svc")
  case (Some e)
  then show ?thesis by (simp add: get_impl_refused)
next
  case None
  show ?thesis
  proof (cases "- (2 ^ 31) \<le> timeout self \<and> timeout self < 2 ^ 31")
    case False
    with None show ?thesis by (simp add: get_impl_ValueError)
  next
    case True
    show ?thesis
    proof (cases "reply svc")
      case (Inl e)
      with None True show ?thesis by (simp add: get_impl_read_failed)
    next
      case (Inr received)
      show ?thesis
      proof (cases "Response_ParseFromString received")
        case (Inl e)
        have "get_impl self u svc =
            \<lparr>events = [OpenConnection ''127.0.0.1'' 3080,
                       Write (Request_SerializeToString
                                \<lparr>req_id = 1337, req_url = str u,
                                   req_timeout = timeout self\<rparr>),
                       WriteEof, Drain, ReadToEof, ParseFromString received],
             logged = [], outcome = Inl e\<rparr>"
          using None True Inr Inl by (intro get_impl_parse_failed) simp_all
        with Inr show ?thesis by auto
      next
        case response: (Inr response)
        have "get_impl self u svc =
            \<lparr>events = [OpenConnection ''127.0.0.1'' 3080,
                       Write (Request_SerializeToString
                                \<lparr>req_id = 1337, req_url = str u,
                                   req_timeout = timeout self\<rparr>),
                       WriteEof, Drain, ReadToEof, ParseFromString received, Close,
                       WaitClosed],
             logged = [Debug_got_response (resp_id response) (resp_status_code response)
                         (length (resp_data response))],
             outcome = Inr \<lparr>page_text = Bytes (resp_data response), url = UrlObj u,
                           status_code = Some (resp_status_code response)\<rparr>\<rparr>"
          using None True Inr response by (intro get_impl_parsed) simp_all
        with Inr response show ?thesis by auto
      qed
    qed
  qed
qed

text \<open>The amended claim C7 at a call that returns a result.\<close>

theorem get_impl_wire_order_witness:
  "outcome (get_impl \<lparr>data_dir = ''/app/data'', timeout = 15\<rparr>
        \<lparr>address = ''http://example.test'', nickname = ''example''\<rparr>
        \<lparr>refuses = None, reply = Inr [8, 185, 10, 16, 200, 1, 26, 2, 104, 105]\<rparr>) =
     Inr \<lparr>page_text = Bytes [104, 105],
          url = UrlObj \<lparr>address = ''http://example.test'', nickname = ''example''\<rparr>,
          status_code = Some 200\<rparr>
   \<and> Response_ParseFromString [8, 185, 10, 16, 200, 1, 26, 2, 104, 105] =
     Inr \<lparr>resp_id = 1337, resp_status_code = 200, resp_data = [104, 105]\<rparr>
   \<and> events (get_impl \<lparr>data_dir = ''/app/data'', timeout = 15\<rparr>
        \<lparr>address = ''http://example.test'', nickname = ''example''\<rparr>
        \<lparr>refuses = None, reply = Inr [8, 185, 10, 16, 200, 1, 26, 2, 104, 105]\<rparr>) =
      [OpenConnection ''127.0.0.1'' 3080,
       Write [8, 185, 10, 18, 19, 104, 116, 116, 112, 58, 47, 47, 101, 120, 97, 109, 112,
              108, 101, 46, 116, 101, 115, 116, 24, 15],
       WriteEof, Drain, ReadToEof,
       ParseFromString [8, 185, 10, 16, 200, 1, 26, 2, 104, 105], Close, WaitClosed]"
proof -
  let ?svc = "\<lparr>refuses = None, reply = Inr [8, 185, 10, 16, 200, 1, 26, 2, 104, 105]\<rparr>"
  let ?run = "get_impl \<lparr>data_dir = ''/app/data'', timeout = 15\<rparr>
        \<lparr>address = ''http://example.test'', nickname = ''example''\<rparr> ?svc"
  have o: "outcome ?run =
     Inr \<lparr>page_text = Bytes [104, 105],
          url = UrlObj \<lparr>address = ''http://example.test'', nickname = ''example''\<rparr>,
          status_code = Some 200\<rparr>"
    by (simp add: get_impl_defs Response_example_1337)
  from get_impl_wire_order [of "\<lparr>data_dir = ''/app/data'', timeout = 15\<rparr>"
        "\<lparr>address = ''http://example.test'', nickname = ''example''\<rparr>" ?svc] o
  obtain received where
    r: "reply ?svc = Inr received" and
    e: "events ?run =
      [OpenConnection ''127.0.0.1'' 3080,
       Write (Request_SerializeToString
                \<lparr>req_id = 1337,
                   req_url = str \<lparr>address = ''http://example.test'', nickname = ''example''\<rparr>,
                   req_timeout = timeout \<lparr>data_dir = ''/app/data'', timeout = 15\<rparr>\<rparr>),
       WriteEof, Drain, ReadToEof, ParseFromString received, Close, WaitClosed]"
    by blast
  from r have "received = [8, 185, 10, 16, 200, 1, 26, 2, 104, 105]" by simp
  with e have "events ?run =
      [OpenConnection ''127.0.0.1'' 3080,
       Write (Request_SerializeToString
                \<lparr>req_id = 1337, req_url = ''http://example.test'', req_timeout = 15\<rparr>),
       WriteEof, Drain, ReadToEof,
       ParseFromString [8, 185, 10, 16, 200, 1, 26, 2, 104, 105], Close, WaitClosed]"
    by (simp add: str_def)
  with o Response_example_1337 show ?thesis
    by (simp only: Request_example_bytes simp_thms)
qed

text \<open>
  Claim C7 as stated, with the connection closed in every fetch, fails at a reply that
  does not parse: the call ends with \<open>DecodeError\<close> in the parse, after the read, and
  has not closed the connection.
\<close>

theorem get_impl_wire_order_counterexample:
  "events (get_impl \<lparr>data_dir = ''/app/data'', timeout = 15\<rparr>
        \<lparr>address = ''http://example.test'', nickname = ''example''\<rparr>
        \<lparr>refuses = None, reply = Inr [255]\<rparr>) =
      [OpenConnection ''127.0.0.1'' 3080,
       Write [8, 185, 10, 18, 19, 104, 116, 116, 112, 58, 47, 47, 101, 120, 97, 109, 112,
              108, 101, 46, 116, 101, 115, 116, 24, 15],
       WriteEof, Drain, ReadToEof, ParseFromString [255]]
   \<and> Close \<notin> set (events (get_impl \<lparr>data_dir = ''/app/data'', timeout = 15\<rparr>
        \<lparr>address = ''http://example.test'', nickname = ''example''\<rparr>
        \<lparr>refuses = None, reply = Inr [255]\<rparr>))
   \<and> outcome (get_impl \<lparr>data_dir = ''/app/data'', timeout = 15\<rparr>
        \<lparr>address = ''http://example.test'', nickname = ''example''\<rparr>
        \<lparr>refuses = None, reply = Inr [255]\<rparr>) = Inl DecodeError"
proof -
  have r: "Request_new\<lparr>req_id := 1337, req_url := ''http://example.test'', req_timeout := 15\<rparr>
      = \<lparr>req_id = 1337, req_url = ''http://example.test'', req_timeout = 15\<rparr>"
    by (simp add: Request_new_def)
  show ?thesis
    by (simp add: get_impl_defs Response_example_truncated str_def r Request_example_bytes)
qed

subsection \<open>C8: Artifacts that cannot be written\<close>

text \<open>
  Claim C8, as amended. In SeleniumDriver a failure to save the screenshot is caught and
  logged as a warning, and the call returns the page source. PuppeteerDriver never looks
  at the screenshot, so whether it was written changes nothing. The html file, however,
  is where PuppeteerDriver takes the page from: when the script ends with return code 0,
  the call returns the content of the file if it can be read, and ends with the
  exception of \<open>open\<close> if not.
\<close>

theorem artifact_failure:
  "(chrome b = None \<and> load b = None \<and> save_screenshot b = Some e \<and> page_source b = Inr src
      \<longrightarrow> outcome (SeleniumDriver_get s u b) =
            Inr \<lparr>page_text = Str src, url = UrlObj u, status_code = None\<rparr>
          \<and> logged (SeleniumDriver_get s u b) = [Warning_screenshot e])
   \<and> PuppeteerDriver_get p u (r\<lparr>png_file := False\<rparr>) = PuppeteerDriver_get p u r
   \<and> (spawn r = None \<and> returncode r = 0 \<and> html_file r = Inr content
      \<longrightarrow> outcome (PuppeteerDriver_get p u r) =
            Inr (Some \<lparr>page_text = Str content, url = UrlObj u, status_code = None\<rparr>))
   \<and> (spawn r = None \<and> returncode r = 0 \<and> html_file r = Inl e'
      \<longrightarrow> outcome (PuppeteerDriver_get p u r) = Inl e')"
  by (simp add: Selenium_screenshot_failure Puppeteer_outcome Puppeteer_ignores_png)

text \<open>
  The amended claim C8 at a screenshot that cannot be saved, at an html file that was
  written and at one that was not.
\<close>

theorem artifact_failure_witness:
  "outcome (SeleniumDriver_get
      \<lparr>data_dir = ''/app/data'', timeout = 15, selenium_path = ''/app/selenium'',
       driver_path = ''/app/selenium/chromedriver'', options = [''--headless'']\<rparr>
      \<lparr>address = ''http://example.test'', nickname = ''example''\<rparr>
      \<lparr>chrome = None, load = None,
       save_screenshot = Some (OSError ''No space left on device''),
       page_source = Inr ''<html></html>''\<rparr>)
     = Inr \<lparr>page_text = Str ''<html></html>'',
            url = UrlObj \<lparr>address = ''http://example.test'', nickname = ''example''\<rparr>,
            status_code = None\<rparr>
   \<and> logged (SeleniumDriver_get
      \<lparr>data_dir = ''/app/data'', timeout = 15, selenium_path = ''/app/selenium'',
       driver_path = ''/app/selenium/chromedriver'', options = [''--headless'']\<rparr>
      \<lparr>address = ''http://example.test'', nickname = ''example''\<rparr>
      \<lparr>chrome = None, load = None,
       save_screenshot = Some (OSError ''No space left on device''),
       page_source = Inr ''<html></html>''\<rparr>)
     = [Warning_screenshot (OSError ''No space left on device'')]
   \<and> outcome (PuppeteerDriver_get
      \<lparr>data_dir = ''/app/data'', timeout = 15, script_path = ''/app/src/scrape.js''\<rparr>
      \<lparr>address = ''http://example.test'', nickname = ''example''\<rparr>
      \<lparr>spawn = None, returncode = 0, stdout = [],
       html_file = Inr ''<html></html>'', png_file = False\<rparr>)
     = Inr (Some \<lparr>page_text = Str ''<html></html>'',
            url = UrlObj \<lparr>address = ''http://example.test'', nickname = ''example''\<rparr>,
            status_code = None\<rparr>)
   \<and> outcome (PuppeteerDriver_get
      \<lparr>data_dir = ''/app/data'', timeout = 15, script_path = ''/app/src/scrape.js''\<rparr>
      \<lparr>address = ''http://example.test'', nickname = ''example''\<rparr>
      \<lparr>spawn = None, returncode = 0, stdout = [],
       html_file = Inl (OSError ''No such file or directory''), png_file = True\<rparr>)
     = Inl (OSError ''No such file or directory'')"
  using
    artifact_failure [of
      "\<lparr>chrome = None, load = None,
        save_screenshot = Some (OSError ''No space left on device''),
        page_source = Inr ''<html></html>''\<rparr>"
      "OSError ''No space left on device''" "''<html></html>''"
      "\<lparr>data_dir = ''/app/data'', timeout = 15, selenium_path = ''/app/selenium'',
        driver_path = ''/app/selenium/chromedriver'', options = [''--headless'']\<rparr>"
      "\<lparr>address = ''http://example.test'', nickname = ''example''\<rparr>"
      "\<lparr>data_dir = ''/app/data'', timeout = 15, script_path = ''/app/src/scrape.js''\<rparr>"
      "\<lparr>spawn = None, returncode = 0, stdout = [],
        html_file = Inr ''<html></html>'', png_file = False\<rparr>"
      "''<html></html>''" "OSError []"]
    artifact_failure [of
      "\<lparr>chrome = None, load = None,
        save_screenshot = Some (OSError ''No space left on device''),
        page_source = Inr ''<html></html>''\<rparr>"
      "OSError ''No space left on device''" "''<html></html>''"
      "\<lparr>data_dir = ''/app/data'', timeout = 15, selenium_path = ''/app/selenium'',
        driver_path = ''/app/selenium/chromedriver'', options = [''--headless'']\<rparr>"
      "\<lparr>address = ''http://example.test'', nickname = ''example''\<rparr>"
      "\<lparr>data_dir = ''/app/data'', timeout = 15, script_path = ''/app/src/scrape.js''\<rparr>"
      "\<lparr>spawn = None, returncode = 0, stdout = [],
        html_file = Inl (OSError ''No such file or directory''), png_file = True\<rparr>"
      "[]" "OSError ''No such file or directory''"]
  by simp

text \<open>
  Claim C8 as stated fails in PuppeteerDriver at a run of the script that leaves no html
  file. When the script still ends with return code 0, the exception of \<open>open\<close> reaches
  the caller; when it reports the failure with another return code, the call returns
  \<open>None\<close>. Neither is the page content.
\<close>

theorem artifact_failure_counterexample:
  "outcome (PuppeteerDriver_get
      \<lparr>data_dir = ''/app/data'', timeout = 15, script_path = ''/app/src/scrape.js''\<rparr>
      \<lparr>address = ''http://example.test'', nickname = ''example''\<rparr>
      \<lparr>spawn = None, returncode = 0, stdout = [],
       html_file = Inl (OSError ''No such file or directory''), png_file = True\<rparr>)
     = Inl (OSError ''No such file or directory'')
   \<and> outcome (PuppeteerDriver_get
      \<lparr>data_dir = ''/app/data'', timeout = 15, script_path = ''/app/src/scrape.js''\<rparr>
      \<lparr>address = ''http://example.test'', nickname = ''example''\<rparr>
      \<lparr>spawn = None, returncode = 1, stdout = ''EACCES: permission denied'',
       html_file = Inl (OSError ''No such file or directory''), png_file = True\<rparr>)
     = Inr None"
  by (simp add: PuppeteerDriver_get_def)

subsection \<open>C9: The request that is sent\<close>

text \<open>
  Claim C9: whatever \<open>get_impl\<close> writes to the connection is the serialization of a
  request whose id is 1337, whose timeout is the timeout of the driver and whose url is
  \<open>str(url)\<close>; and these are the fields the service reads when it parses the bytes
  (for a url whose length fits the length prefix).
\<close>

theorem get_impl_request_fields:
  assumes "Write sent \<in> set (events (get_impl self u svc))"
  shows "\<exists>request. sent = Request_SerializeToString request
           \<and> req_id request = 1337 \<and> req_timeout request = timeout self
           \<and> req_url request = str u
           \<and> (length (str u) < 2 ^ 64 \<longrightarrow> Request_ParseFromString sent = Inr request)"
proof -
  let ?r = "\<lparr>req_id = 1337, req_url = str u, req_timeout = timeout self\<rparr>"
  from assms have s: "sent = Request_SerializeToString ?r"
    and t: "- (2 ^ 31) \<le> timeout self" "timeout self < 2 ^ 31"
    by (auto simp: get_impl_defs Request_new_def split: option.splits sum.splits if_splits)
  have "Request_ParseFromString (Request_SerializeToString ?r) = Inr ?r"
    if "length (str u) < 2 ^ 64"
    using that t by (intro Request_roundtrip) simp_all
  with s show ?thesis by (intro exI [of _ ?r]) simp
qed

text \<open>Claim C9 at a driver with timeout 15: the request is written.\<close>

theorem get_impl_request_fields_witness:
  "Write [8, 185, 10, 18, 19, 104, 116, 116, 112, 58, 47, 47, 101, 120, 97, 109, 112,
          108, 101, 46, 116, 101, 115, 116, 24, 15]
     \<in> set (events (get_impl \<lparr>data_dir = ''/app/data'', timeout = 15\<rparr>
        \<lparr>address = ''http://example.test'', nickname = ''example''\<rparr>
        \<lparr>refuses = None, reply = Inr [8, 185, 10, 16, 200, 1, 26, 2, 104, 105]\<rparr>))
   \<and> (\<exists>request.
        [8, 185, 10, 18, 19, 104, 116, 116, 112, 58, 47, 47, 101, 120, 97, 109, 112,
         108, 101, 46, 116, 101, 115, 116, 24, 15] = Request_SerializeToString request
        \<and> req_id request = 1337 \<and> req_timeout request = 15
        \<and> req_url request = ''http://example.test''
        \<and> Request_ParseFromString
             [8, 185, 10, 18, 19, 104, 116, 116, 112, 58, 47, 47, 101, 120, 97, 109, 112,
              108, 101, 46, 116, 101, 115, 116, 24, 15] = Inr request)"
proof -
  have m: "Write [8, 185, 10, 18, 19, 104, 116, 116, 112, 58, 47, 47, 101, 120, 97, 109, 112,
          108, 101, 46, 116, 101, 115, 116, 24, 15]
     \<in> set (events (get_impl \<lparr>data_dir = ''/app/data'', timeout = 15\<rparr>
        \<lparr>address = ''http://example.test'', nickname = ''example''\<rparr>
        \<lparr>refuses = None, reply = Inr [8, 185, 10, 16, 200, 1, 26, 2, 104, 105]\<rparr>))"
    by (simp only: events_example) simp
  from get_impl_request_fields [OF m] m show ?thesis by (simp add: str_def)
qed

subsection \<open>C10: Which drivers report a status code\<close>

text \<open>
  Claim C10: the constructor of \<open>HttpGetResponse\<close> leaves \<open>status_code\<close> at \<open>None\<close> when
  the keyword is not passed; every result of SeleniumDriver and of PuppeteerDriver has
  the status code \<open>None\<close>, and every result of RequestsDriver and of LeanAndMeanDriver
  has one.
\<close>

theorem status_code_of_drivers:
  "status_code (HttpGetResponse_init t w Map.empty) = None
   \<and> (outcome (SeleniumDriver_get s u b) = Inr res1 \<longrightarrow> status_code res1 = None)
   \<and> (outcome (PuppeteerDriver_get p u r) = Inr (Some res2) \<longrightarrow> status_code res2 = None)
   \<and> (outcome (RequestsDriver_get d u h) = Inr res3 \<longrightarrow> status_code res3 \<noteq> None)
   \<and> (outcome (LeanAndMeanDriver_get d u svc) = Inr res4 \<longrightarrow> status_code res4 \<noteq> None)"
  using Selenium_status_code [of s u b res1] Puppeteer_status_code [of p u r res2]
    Requests_status_code [of d u h res3] LeanAndMean_status_code [of d u svc res4]
  by (simp add: HttpGetResponse_init_def)

text \<open>Claim C10 at one call of each driver that returns a result.\<close>

theorem status_code_of_drivers_witness:
  "status_code (projr (outcome (SeleniumDriver_get
      \<lparr>data_dir = ''/app/data'', timeout = 15, selenium_path = ''/app/selenium'',
       driver_path = ''/app/selenium/chromedriver'', options = [''--headless'']\<rparr>
      \<lparr>address = ''http://example.test'', nickname = ''example''\<rparr>
      \<lparr>chrome = None, load = None, save_screenshot = None,
       page_source = Inr ''<html></html>''\<rparr>))) = None
   \<and> \<not> isl (outcome (SeleniumDriver_get
      \<lparr>data_dir = ''/app/data'', timeout = 15, selenium_path = ''/app/selenium'',
       driver_path = ''/app/selenium/chromedriver'', options = [''--headless'']\<rparr>
      \<lparr>address = ''http://example.test'', nickname = ''example''\<rparr>
      \<lparr>chrome = None, load = None, save_screenshot = None,
       page_source = Inr ''<html></html>''\<rparr>))
   \<and> outcome (PuppeteerDriver_get
      \<lparr>data_dir = ''/app/data'', timeout = 15, script_path = ''/app/src/scrape.js''\<rparr>
      \<lparr>address = ''http://example.test'', nickname = ''example''\<rparr>
      \<lparr>spawn = None, returncode = 0, stdout = [],
       html_file = Inr ''<html></html>'', png_file = True\<rparr>)
     = Inr (Some \<lparr>page_text = Str ''<html></html>'',
            url = UrlObj \<lparr>address = ''http://example.test'', nickname = ''example''\<rparr>,
            status_code = None\<rparr>)
   \<and> status_code (projr (outcome (RequestsDriver_get
      \<lparr>data_dir = ''/app/data'', timeout = 15\<rparr>
      \<lparr>address = ''http://example.test'', nickname = ''example''\<rparr>
      (Inr \<lparr>r_text = ''Not Found'', r_url = ''http://example.test/'',
            r_status_code = 404\<rparr>)))) \<noteq> None
   \<and> \<not> isl (outcome (RequestsDriver_get
      \<lparr>data_dir = ''/app/data'', timeout = 15\<rparr>
      \<lparr>address = ''http://example.test'', nickname = ''example''\<rparr>
      (Inr \<lparr>r_text = ''Not Found'', r_url = ''http://example.test/'',
            r_status_code = 404\<rparr>)))
   \<and> status_code (projr (outcome (LeanAndMeanDriver_get
      \<lparr>data_dir = ''/app/data'', timeout = 15\<rparr>
      \<lparr>address = ''http://example.test'', nickname = ''example''\<rparr>
      \<lparr>refuses = None, reply = Inr []\<rparr>))) \<noteq> None
   \<and> \<not> isl (outcome (LeanAndMeanDriver_get
      \<lparr>data_dir = ''/app/data'', timeout = 15\<rparr>
      \<lparr>address = ''http://example.test'', nickname = ''example''\<rparr>
      \<lparr>refuses = None, reply = Inr []\<rparr>))"
proof -
  let ?s = "\<lparr>data_dir = ''/app/data'', timeout = 15, selenium_path = ''/app/selenium'',
       driver_path = ''/app/selenium/chromedriver'', options = [''--headless'']\<rparr>"
  let ?p = "\<lparr>data_dir = ''/app/data'', timeout = 15, script_path = ''/app/src/scrape.js''\<rparr>"
  let ?d = "\<lparr>data_dir = ''/app/data'', timeout = 15\<rparr>"
  let ?u = "\<lparr>address = ''http://example.test'', nickname = ''example''\<rparr>"
  let ?b = "\<lparr>chrome = None, load = None, save_screenshot = None,
       page_source = Inr ''<html></html>''\<rparr>"
  let ?r = "\<lparr>spawn = None, returncode = 0, stdout = [],
       html_file = Inr ''<html></html>'', png_file = True\<rparr>"
  let ?h = "Inr \<lparr>r_text = ''Not Found'', r_url = ''http://example.test/'',
            r_status_code = 404\<rparr> :: exn + requests_response"
  let ?svc = "\<lparr>refuses = None, reply = Inr []\<rparr>"
  have 1: "outcome (SeleniumDriver_get ?s ?u ?b) = Inr (projr (outcome (SeleniumDriver_get ?s ?u ?b)))"
    by (simp add: SeleniumDriver_get_def)
  have 2: "outcome (PuppeteerDriver_get ?p ?u ?r) =
      Inr (Some \<lparr>page_text = Str ''<html></html>'', url = UrlObj ?u, status_code = None\<rparr>)"
    by (simp add: PuppeteerDriver_get_def HttpGetResponse_init_def)
  have 3: "outcome (RequestsDriver_get ?d ?u ?h) = Inr (projr (outcome (RequestsDriver_get ?d ?u ?h)))"
    by (simp add: RequestsDriver_get_def)
  have 4: "outcome (LeanAndMeanDriver_get ?d ?u ?svc) =
      Inr (projr (outcome (LeanAndMeanDriver_get ?d ?u ?svc)))"
    by (simp add: LeanAndMeanDriver_get_def get_impl_defs Response_ParseFromString_Nil)
  have i: "\<not> isl (outcome (SeleniumDriver_get ?s ?u ?b))"
    "\<not> isl (outcome (RequestsDriver_get ?d ?u ?h))"
    "\<not> isl (outcome (LeanAndMeanDriver_get ?d ?u ?svc))"
    by (simp_all add: SeleniumDriver_get_def RequestsDriver_get_def LeanAndMeanDriver_get_def
        get_impl_defs Response_ParseFromString_Nil)
  from status_code_of_drivers [of undefined undefined ?s ?u ?b
      "projr (outcome (SeleniumDriver_get ?s ?u ?b))" ?p ?r
      "\<lparr>page_text = Str ''<html></html>'', url = UrlObj ?u, status_code = None\<rparr>"
      ?d ?h "projr (outcome (RequestsDriver_get ?d ?u ?h))" ?svc
      "projr (outcome (LeanAndMeanDriver_get ?d ?u ?svc))"] 1 2 3 4 i
  show ?thesis by simp
qed

end
